theory Spec2Isabelle
  imports
    Main
    "HOL-Library.Char_ord"
    "HOL-Library.List_Lexorder"
    "HOL-Library.Product_Lexorder"
begin

section \<open>The career-planning store (db.py)\<close>

text \<open>
  The four dataclasses of db.py become records. Python's \<open>int\<close> is \<open>int\<close>, \<open>str\<close> is
  \<open>string\<close> (the bytes of the UTF-8 text, which is what SQLite stores and compares), and
  \<open>int | None\<close>, \<open>str | None\<close> are options. The field names carry a prefix because the
  four classes share names (\<open>id\<close>, \<open>start_date\<close>, ...).
\<close>

record scenario =
  s_id :: int
  s_name :: string
  s_year :: int
  s_quarter :: int
  s_start_date :: string
  s_end_date :: string

record position =
  p_id :: int
  p_scenario_id :: int
  p_title :: string
  p_department :: string
  p_parent_position_id :: "int option"

record employee =
  e_id :: int
  e_employee_code :: string
  e_full_name :: string

record assignment =
  a_id :: int
  a_employee_id :: int
  a_position_id :: int
  a_start_date :: string
  a_end_date :: "string option"

text \<open>
  A table of the schema: its rows in rowid order, and the counter that
  \<open>INTEGER PRIMARY KEY AUTOINCREMENT\<close> keeps in \<open>sqlite_sequence\<close> (0 before the first
  insert). The database file is the four tables.
\<close>

record 'r table =
  t_rows :: "'r list"
  t_seq :: int

record database =
  scenarios :: "scenario table"
  positions :: "position table"
  employees :: "employee table"
  assignments :: "assignment table"

definition empty_table :: "'r table" where
  "empty_table = \<lparr>t_rows = [], t_seq = 0\<rparr>"

definition empty_database :: database where
  "empty_database = \<lparr>scenarios = empty_table, positions = empty_table,
     employees = empty_table, assignments = empty_table\<rparr>"

text \<open>
  The exceptions that the modelled code can raise: \<open>sqlite3.IntegrityError\<close> (a constraint
  of the schema), \<open>OverflowError\<close> (a Python int that does not fit SQLite's 64-bit
  INTEGER, raised when the parameter is bound), \<open>ValueError\<close> (\<open>datetime.date\<close> out of
  range), \<open>KeyError\<close> (a missing dict key) and \<open>RecursionError\<close> (the interpreter's
  recursion limit). Failures of the machine (a full disk, an unreadable file, the
  exhaustion of the 63-bit rowid space) are outside the model.
\<close>

datatype error = IntegrityError | OverflowError | ValueError | KeyError | RecursionError

definition int64 :: "int \<Rightarrow> bool" where
  "int64 i = (- (2 ^ 63) \<le> i \<and> i < 2 ^ 63)"

text \<open>
  The rowid that AUTOINCREMENT gives a new row: one more than the largest rowid the table
  has ever held (the counter, or a stored rowid if one is larger).
\<close>

definition new_rowid :: "int \<Rightarrow> int list \<Rightarrow> int" where
  "new_rowid sq ids = fold max ids sq + 1"

subsection \<open>The SQL statements of db.py\<close>

text \<open>
  One constructor for each data-changing statement text in db.py, with its parameters in the order
  of the question marks (the INSERT of \<open>move_employee\<close>, which writes the literal NULL,
  is \<open>Insert_assignment\<close> with end date \<open>None\<close>).
\<close>

datatype statement =
    Insert_or_ignore_scenario string int int string string
  | Insert_position int string string "int option"
  | Insert_employee string string
  | Insert_assignment int int string "string option"
  | Close_open_assignments string int
  | Delete_position int
  | Delete_employee int
  | Delete_assignment int

text \<open>Binding the parameters: every integer must fit 64 bits.\<close>

fun bindable :: "statement \<Rightarrow> bool" where
  "bindable (Insert_or_ignore_scenario n y q sd ed) = (int64 y \<and> int64 q)"
| "bindable (Insert_position sid t d par) =
     (int64 sid \<and> (case par of None \<Rightarrow> True | Some i \<Rightarrow> int64 i))"
| "bindable (Insert_employee c n) = True"
| "bindable (Insert_assignment e p sd ed) = (int64 e \<and> int64 p)"
| "bindable (Close_open_assignments d e) = int64 e"
| "bindable (Delete_position i) = int64 i"
| "bindable (Delete_employee i) = int64 i"
| "bindable (Delete_assignment i) = int64 i"

definition close_assignment :: "string \<Rightarrow> int \<Rightarrow> assignment \<Rightarrow> assignment" where
  "close_assignment d e a =
     (if a_employee_id a = e \<and> a_end_date a = None then a\<lparr>a_end_date := Some d\<rparr> else a)"

definition clear_parent :: "int \<Rightarrow> position \<Rightarrow> position" where
  "clear_parent i p =
     (if p_parent_position_id p = Some i then p\<lparr>p_parent_position_id := None\<rparr> else p)"

text \<open>
  What the engine does with one statement on the schema of \<open>_connect_and_init\<close>. The
  first argument is the connection's \<open>foreign_keys\<close> setting: only when it is on are the
  FOREIGN KEY clauses checked on insert and their ON DELETE actions (SET NULL for
  \<open>parent_position_id\<close>, CASCADE for the assignments) run. UNIQUE and the rowid are
  independent of it. A statement that fails changes nothing.
\<close>

fun step :: "bool \<Rightarrow> statement \<Rightarrow> database \<Rightarrow> error + database" where
  "step fk (Insert_or_ignore_scenario n y q sd ed) db =
     (let t = scenarios db; rid = new_rowid (t_seq t) (map s_id (t_rows t)) in
      if \<exists>r \<in> set (t_rows t). s_year r = y \<and> s_quarter r = q
      then Inr (db\<lparr>scenarios := t\<lparr>t_seq := rid\<rparr>\<rparr>)
      else Inr (db\<lparr>scenarios := \<lparr>t_rows = t_rows t @
             [\<lparr>s_id = rid, s_name = n, s_year = y, s_quarter = q,
               s_start_date = sd, s_end_date = ed\<rparr>], t_seq = rid\<rparr>\<rparr>))"
| "step fk (Insert_position sid ti d par) db =
     (let t = positions db; rid = new_rowid (t_seq t) (map p_id (t_rows t)) in
      if fk \<and> \<not> (sid \<in> set (map s_id (t_rows (scenarios db))) \<and>
           (case par of None \<Rightarrow> True
            | Some i \<Rightarrow> i \<in> set (map p_id (t_rows t)) \<or> i = rid))
      then Inl IntegrityError
      else Inr (db\<lparr>positions := \<lparr>t_rows = t_rows t @
             [\<lparr>p_id = rid, p_scenario_id = sid, p_title = ti, p_department = d,
               p_parent_position_id = par\<rparr>], t_seq = rid\<rparr>\<rparr>))"
| "step fk (Insert_employee c n) db =
     (let t = employees db; rid = new_rowid (t_seq t) (map e_id (t_rows t)) in
      if \<exists>r \<in> set (t_rows t). e_employee_code r = c
      then Inl IntegrityError
      else Inr (db\<lparr>employees := \<lparr>t_rows = t_rows t @
             [\<lparr>e_id = rid, e_employee_code = c, e_full_name = n\<rparr>], t_seq = rid\<rparr>\<rparr>))"
| "step fk (Insert_assignment e p sd ed) db =
     (let t = assignments db; rid = new_rowid (t_seq t) (map a_id (t_rows t)) in
      if fk \<and> \<not> (e \<in> set (map e_id (t_rows (employees db))) \<and>
                   p \<in> set (map p_id (t_rows (positions db))))
      then Inl IntegrityError
      else Inr (db\<lparr>assignments := \<lparr>t_rows = t_rows t @
             [\<lparr>a_id = rid, a_employee_id = e, a_position_id = p, a_start_date = sd,
               a_end_date = ed\<rparr>], t_seq = rid\<rparr>\<rparr>))"
| "step fk (Close_open_assignments d e) db =
     Inr (db\<lparr>assignments := (assignments db)
            \<lparr>t_rows := map (close_assignment d e) (t_rows (assignments db))\<rparr>\<rparr>)"
| "step fk (Delete_position i) db =
     (let ps = t_rows (positions db); kept = filter (\<lambda>p. p_id p \<noteq> i) ps in
      if fk \<and> i \<in> set (map p_id ps)
      then Inr (db\<lparr>positions := (positions db)\<lparr>t_rows := map (clear_parent i) kept\<rparr>,
                   assignments := (assignments db)
                     \<lparr>t_rows := filter (\<lambda>a. a_position_id a \<noteq> i) (t_rows (assignments db))\<rparr>\<rparr>)
      else Inr (db\<lparr>positions := (positions db)\<lparr>t_rows := kept\<rparr>\<rparr>))"
| "step fk (Delete_employee i) db =
     (let es = t_rows (employees db); kept = filter (\<lambda>e. e_id e \<noteq> i) es in
      if fk \<and> i \<in> set (map e_id es)
      then Inr (db\<lparr>employees := (employees db)\<lparr>t_rows := kept\<rparr>,
                   assignments := (assignments db)
                     \<lparr>t_rows := filter (\<lambda>a. a_employee_id a \<noteq> i) (t_rows (assignments db))\<rparr>\<rparr>)
      else Inr (db\<lparr>employees := (employees db)\<lparr>t_rows := kept\<rparr>\<rparr>))"
| "step fk (Delete_assignment i) db =
     Inr (db\<lparr>assignments := (assignments db)
            \<lparr>t_rows := filter (\<lambda>a. a_id a \<noteq> i) (t_rows (assignments db))\<rparr>\<rparr>)"

subsection \<open>Connections and transactions\<close>

text \<open>
  A \<open>sqlite3.Connection\<close>: its \<open>foreign_keys\<close> pragma, the database as the connection
  sees it (its own uncommitted changes included), and, while a transaction is open, the
  contents to restore on rollback.
\<close>

record connection =
  foreign_keys :: bool
  contents :: database
  snapshot :: "database option"

text \<open>
  \<open>_connect\<close> (db.py 97-100) opens a new connection and sets only the row factory. The
  pragma \<open>foreign_keys\<close> belongs to the connection and is off on a new one; the
  \<open>PRAGMA foreign_keys = ON\<close> of \<open>_connect_and_init\<close> (line 57) is run on that method's
  own connection, which no other method uses.
\<close>

definition connect :: "database \<Rightarrow> connection" where
  "connect db = \<lparr>foreign_keys = False, contents = db, snapshot = None\<rparr>"

text \<open>
  \<open>conn.execute\<close> on a data-changing statement: the module first opens a transaction if
  none is open, then binds the parameters, then runs the statement. The result is the
  exception raised, if any, and the connection afterwards.
\<close>

definition begin_if_needed :: "connection \<Rightarrow> connection" where
  "begin_if_needed c =
     (case snapshot c of None \<Rightarrow> c\<lparr>snapshot := Some (contents c)\<rparr> | Some s \<Rightarrow> c)"

definition execute :: "connection \<Rightarrow> statement \<Rightarrow> error option \<times> connection" where
  "execute c st =
     (let c1 = begin_if_needed c in
      if \<not> bindable st then (Some OverflowError, c1)
      else case step (foreign_keys c1) st (contents c1) of
             Inl e \<Rightarrow> (Some e, c1)
           | Inr db' \<Rightarrow> (None, c1\<lparr>contents := db'\<rparr>))"

text \<open>
  \<open>conn.executemany(sql, seq)\<close>: the statement \<open>sql\<close> once for each parameter tuple of
  \<open>seq\<close>, until one raises.
\<close>

fun executemany ::
  "connection \<Rightarrow> ('p \<Rightarrow> statement) \<Rightarrow> 'p list \<Rightarrow> error option \<times> connection" where
  "executemany c sql [] = (None, c)"
| "executemany c sql (ps # pss) =
     (case execute c (sql ps) of
        (Some e, c1) \<Rightarrow> (Some e, c1)
      | (None, c1) \<Rightarrow> executemany c1 sql pss)"

definition commit :: "connection \<Rightarrow> connection" where
  "commit c = c\<lparr>snapshot := None\<rparr>"

definition rollback :: "connection \<Rightarrow> connection" where
  "rollback c =
     (case snapshot c of None \<Rightarrow> c | Some s \<Rightarrow> c\<lparr>contents := s, snapshot := None\<rparr>)"

text \<open>
  \<open>with self._connect() as conn: body\<close>. The connection is a context manager that commits
  when the body returns and rolls back when it raises, and lets the exception through.
  The result is the exception, if any, and the database file afterwards.
\<close>

definition with_connect ::
  "database \<Rightarrow> (connection \<Rightarrow> error option \<times> connection) \<Rightarrow> error option \<times> database" where
  "with_connect db body =
     (case body (connect db) of
        (None, c) \<Rightarrow> (None, contents (commit c))
      | (Some e, c) \<Rightarrow> (Some e, contents (rollback c)))"

subsection \<open>The writing methods of Database\<close>

definition add_position ::
  "database \<Rightarrow> int \<Rightarrow> string \<Rightarrow> string \<Rightarrow> int option \<Rightarrow> error option \<times> database" where
  "add_position db scenario_id title department parent_position_id =
     with_connect db (\<lambda>conn.
       execute conn (Insert_position scenario_id title department parent_position_id))"

definition add_employee :: "database \<Rightarrow> string \<Rightarrow> string \<Rightarrow> error option \<times> database" where
  "add_employee db employee_code full_name =
     with_connect db (\<lambda>conn. execute conn (Insert_employee employee_code full_name))"

definition add_assignment ::
  "database \<Rightarrow> int \<Rightarrow> int \<Rightarrow> string \<Rightarrow> string option \<Rightarrow> error option \<times> database" where
  "add_assignment db employee_id position_id start_date end_date =
     with_connect db (\<lambda>conn.
       execute conn (Insert_assignment employee_id position_id start_date end_date))"

definition move_employee_body ::
  "int \<Rightarrow> int \<Rightarrow> string \<Rightarrow> connection \<Rightarrow> error option \<times> connection" where
  "move_employee_body employee_id new_position_id start_date conn =
     (case execute conn (Close_open_assignments start_date employee_id) of
        (Some e, c1) \<Rightarrow> (Some e, c1)
      | (None, c1) \<Rightarrow>
          execute c1 (Insert_assignment employee_id new_position_id start_date None))"

definition move_employee ::
  "database \<Rightarrow> int \<Rightarrow> int \<Rightarrow> string \<Rightarrow> error option \<times> database" where
  "move_employee db employee_id new_position_id start_date =
     with_connect db (move_employee_body employee_id new_position_id start_date)"

definition delete_position :: "database \<Rightarrow> int \<Rightarrow> error option \<times> database" where
  "delete_position db position_id =
     with_connect db (\<lambda>conn. execute conn (Delete_position position_id))"

definition delete_employee :: "database \<Rightarrow> int \<Rightarrow> error option \<times> database" where
  "delete_employee db employee_id =
     with_connect db (\<lambda>conn. execute conn (Delete_employee employee_id))"

definition delete_assignment :: "database \<Rightarrow> int \<Rightarrow> error option \<times> database" where
  "delete_assignment db assignment_id =
     with_connect db (\<lambda>conn. execute conn (Delete_assignment assignment_id))"

subsection \<open>Seeding the quarterly scenarios\<close>

text \<open>
  \<open>datetime.date(year, month, day)\<close> raises ValueError outside years 1 to 9999, months 1
  to 12 and the days of the month; \<open>isoformat\<close> prints \<open>YYYY-MM-DD\<close> with leading zeros.
\<close>

record date =
  d_year :: int
  d_month :: int
  d_day :: int

definition is_leap :: "int \<Rightarrow> bool" where
  "is_leap y = (y mod 4 = 0 \<and> (y mod 100 \<noteq> 0 \<or> y mod 400 = 0))"

definition days_in_month :: "int \<Rightarrow> int \<Rightarrow> int" where
  "days_in_month y m =
     (if m = 2 then (if is_leap y then 29 else 28)
      else if m = 4 \<or> m = 6 \<or> m = 9 \<or> m = 11 then 30 else 31)"

definition mk_date :: "int \<Rightarrow> int \<Rightarrow> int \<Rightarrow> error + date" where
  "mk_date y m d =
     (if 1 \<le> y \<and> y \<le> 9999 \<and> 1 \<le> m \<and> m \<le> 12 \<and> 1 \<le> d \<and> d \<le> days_in_month y m
      then Inr \<lparr>d_year = y, d_month = m, d_day = d\<rparr>
      else Inl ValueError)"

definition replace_day :: "date \<Rightarrow> int \<Rightarrow> error + date" where
  "replace_day dt d = mk_date (d_year dt) (d_month dt) d"

definition digit_char :: "nat \<Rightarrow> char" where
  "digit_char n = char_of (48 + n)"

fun str_nat :: "nat \<Rightarrow> string" where
  "str_nat n = (if n < 10 then [digit_char n] else str_nat (n div 10) @ [digit_char (n mod 10)])"

declare str_nat.simps [simp del]

definition str_int :: "int \<Rightarrow> string" where
  "str_int i = (if i < 0 then CHR ''-'' # str_nat (nat (- i)) else str_nat (nat i))"

definition zero_pad :: "nat \<Rightarrow> int \<Rightarrow> string" where
  "zero_pad w i = (let s = str_int i in replicate (w - length s) CHR ''0'' @ s)"

definition isoformat :: "date \<Rightarrow> string" where
  "isoformat dt =
     zero_pad 4 (d_year dt) @ ''-'' @ zero_pad 2 (d_month dt) @ ''-'' @ zero_pad 2 (d_day dt)"

text \<open>A loop that builds a list and stops at the first iteration that raises.\<close>

fun collect :: "(error + 'a) list \<Rightarrow> error + 'a list" where
  "collect [] = Inr []"
| "collect (Inl e # xs) = Inl e"
| "collect (Inr x # xs) = (case collect xs of Inl e \<Rightarrow> Inl e | Inr ys \<Rightarrow> Inr (x # ys))"

text \<open>
  The body of the two loops of \<open>seed_quarter_scenarios\<close> (db.py 107-122): the tuple
  (name, year, quarter, start date, end date) of one quarter.
\<close>

type_synonym scenario_params = "string \<times> int \<times> int \<times> string \<times> string"

definition insert_or_ignore_scenario :: "scenario_params \<Rightarrow> statement" where
  "insert_or_ignore_scenario ps =
     (case ps of (n, y, q, sd, ed) \<Rightarrow> Insert_or_ignore_scenario n y q sd ed)"

definition quarter_scenario :: "int \<Rightarrow> int \<Rightarrow> error + scenario_params" where
  "quarter_scenario year quarter =
     (let start_month = (quarter - 1) * 3 + 1 in
      case mk_date year start_month 1 of
        Inl e \<Rightarrow> Inl e
      | Inr start \<Rightarrow>
         (case (if start_month + 3 > 12 then mk_date (year + 1) 1 1
                else mk_date year (start_month + 3) 1) of
            Inl e \<Rightarrow> Inl e
          | Inr end' \<Rightarrow>
             (case replace_day end' 1 of
                Inl e \<Rightarrow> Inl e
              | Inr end_date \<Rightarrow>
                  Inr (''FY'' @ str_int year @ '' Q'' @ str_int quarter,
                       year, quarter, isoformat start, isoformat end_date))))"

definition seed_scenarios :: "int \<Rightarrow> int \<Rightarrow> error + scenario_params list" where
  "seed_scenarios current_year years =
     collect (concat (map (\<lambda>year. map (quarter_scenario year) [1..4])
                          [current_year..current_year + years - 1]))"

text \<open>
  \<open>seed_quarter_scenarios\<close>; the year of \<open>date.today()\<close> is the argument
  \<open>current_year\<close>. The list is built before the connection is opened.
\<close>

definition seed_quarter_scenarios :: "database \<Rightarrow> int \<Rightarrow> int \<Rightarrow> error option \<times> database" where
  "seed_quarter_scenarios db current_year years =
     (case seed_scenarios current_year years of
        Inl e \<Rightarrow> (Some e, db)
      | Inr scs \<Rightarrow> with_connect db (\<lambda>conn. executemany conn insert_or_ignore_scenario scs))"

subsection \<open>The reading methods\<close>

text \<open>
  ORDER BY on TEXT columns compares the stored bytes, which is the order of \<open>string\<close>
  here; the order of rows with equal keys is not fixed by SQL and is taken to be the
  rowid order (a stable sort). A SELECT opens no transaction.
\<close>

definition position_key :: "position \<Rightarrow> string \<times> string" where
  "position_key p = (p_department p, p_title p)"

definition list_scenarios :: "database \<Rightarrow> scenario list" where
  "list_scenarios db = sort_key (\<lambda>s. (s_year s, s_quarter s)) (t_rows (scenarios db))"

definition list_positions :: "database \<Rightarrow> int \<Rightarrow> error + position list" where
  "list_positions db scenario_id =
     (if \<not> int64 scenario_id then Inl OverflowError
      else Inr (sort_key position_key
                  (filter (\<lambda>p. p_scenario_id p = scenario_id) (t_rows (positions db)))))"

section \<open>The form and the org chart (app.py)\<close>

text \<open>
  \<open>str.strip()\<close> removes leading and trailing white space: the characters for which
  \<open>str.isspace()\<close> holds, which are the 29 code points of \<open>white_space_code_points\<close>
  (the ASCII ones, U+0085, U+00A0, U+1680, U+2000 to U+200A, U+2028, U+2029, U+202F,
  U+205F and U+3000). A string here is the UTF-8 encoding of the Python text, so a
  white-space character is one of the byte sequences of \<open>white_space\<close>, one to three
  bytes long. In UTF-8 the bytes of one character never begin or end the bytes of
  another, so such a sequence at either end of a string is that character.
\<close>

definition utf8 :: "int \<Rightarrow> string" where
  "utf8 n =
     (if n < 0x80 then [char_of n]
      else if n < 0x800 then [char_of (0xC0 + n div 0x40), char_of (0x80 + n mod 0x40)]
      else [char_of (0xE0 + n div 0x1000), char_of (0x80 + n div 0x40 mod 0x40),
            char_of (0x80 + n mod 0x40)])"

definition white_space_code_points :: "int list" where
  "white_space_code_points =
     [0x09, 0x0A, 0x0B, 0x0C, 0x0D, 0x1C, 0x1D, 0x1E, 0x1F, 0x20, 0x85, 0xA0, 0x1680,
      0x2000, 0x2001, 0x2002, 0x2003, 0x2004, 0x2005, 0x2006, 0x2007, 0x2008, 0x2009,
      0x200A, 0x2028, 0x2029, 0x202F, 0x205F, 0x3000]"

definition white_space :: "string list" where
  "white_space = map utf8 white_space_code_points"

definition is_space :: "string \<Rightarrow> bool" where
  "is_space w = (w \<in> set white_space)"

fun lstrip :: "string \<Rightarrow> string" where
  "lstrip s =
     (if 1 \<le> length s \<and> is_space (take 1 s) then lstrip (drop 1 s)
      else if 2 \<le> length s \<and> is_space (take 2 s) then lstrip (drop 2 s)
      else if 3 \<le> length s \<and> is_space (take 3 s) then lstrip (drop 3 s)
      else s)"

fun rstrip :: "string \<Rightarrow> string" where
  "rstrip s =
     (if 1 \<le> length s \<and> is_space (drop (length s - 1) s) then rstrip (take (length s - 1) s)
      else if 2 \<le> length s \<and> is_space (drop (length s - 2) s)
        then rstrip (take (length s - 2) s)
      else if 3 \<le> length s \<and> is_space (drop (length s - 3) s)
        then rstrip (take (length s - 3) s)
      else s)"

declare lstrip.simps [simp del] rstrip.simps [simp del]

definition strip :: "string \<Rightarrow> string" where
  "strip s = rstrip (lstrip s)"

text \<open>\<open>_combo_value_to_id\<close> (app.py 386-391); \<open>mapping.get\<close> is the lookup of the map.\<close>

definition combo_value_to_id :: "string \<Rightarrow> (string \<rightharpoonup> int) \<Rightarrow> int option" where
  "combo_value_to_id v mapping = (let v' = strip v in if v' = [] then None else mapping v')"

text \<open>
  The part of the application object that these methods read and write: the selected
  scenario, the title-to-id cache, the text variables of the position form and of the
  chart's root selector, and the items of the chart's tree view. An item is its text
  and its child items; the other widgets only display.
\<close>

datatype chart_item = Item string "chart_item list"

record app =
  scenario_id :: "int option"
  positions_cache :: "string \<rightharpoonup> int"
  position_title :: string
  position_department :: string
  position_parent :: string
  chart_root :: string
  chart_tree :: "chart_item list"

definition full_org_chart :: string where
  "full_org_chart = ''(Full Org Chart)''"

text \<open>
  The dict comprehensions \<open>{position.title: position.id ...}\<close> and
  \<open>{position.id: position ...}\<close>: a later position replaces an earlier one with the
  same key.
\<close>

definition title_cache :: "position list \<Rightarrow> (string \<rightharpoonup> int)" where
  "title_cache ps = fold (\<lambda>p m. m(p_title p \<mapsto> p_id p)) ps Map.empty"

definition position_by_id_of :: "position list \<Rightarrow> (int \<rightharpoonup> position)" where
  "position_by_id_of ps = fold (\<lambda>p m. m(p_id p \<mapsto> p)) ps Map.empty"

text \<open>\<open>_refresh_positions\<close> (app.py 281-308), without the widgets it fills.\<close>

definition refresh_positions :: "app \<Rightarrow> database \<Rightarrow> error option \<times> app" where
  "refresh_positions a db =
     (case scenario_id a of
        None \<Rightarrow> (None, a)
      | Some sid \<Rightarrow>
         (case list_positions db sid of
            Inl e \<Rightarrow> (Some e, a)
          | Inr ps \<Rightarrow>
              (None, a\<lparr>positions_cache := title_cache ps,
                        chart_root := (if chart_root a = [] then full_org_chart
                                       else chart_root a)\<rparr>)))"

text \<open>
  The dict \<open>children\<close> of \<open>_refresh_chart\<close>, as the list of its entries in insertion
  order. \<open>setdefault(k, []).append(v)\<close> is \<open>setdefault_append\<close>, \<open>children.get(k, [])\<close>
  is \<open>children_get\<close>.
\<close>

type_synonym children = "(int option \<times> int list) list"

fun setdefault_append :: "children \<Rightarrow> int option \<Rightarrow> int \<Rightarrow> children" where
  "setdefault_append [] k v = [(k, [v])]"
| "setdefault_append ((k', vs) # d) k v =
     (if k' = k then (k', vs @ [v]) # d else (k', vs) # setdefault_append d k v)"

definition children_get :: "children \<Rightarrow> int option \<Rightarrow> int list" where
  "children_get d k = (case map_of d k of None \<Rightarrow> [] | Some vs \<Rightarrow> vs)"

definition group_children :: "position list \<Rightarrow> children" where
  "group_children ps =
     fold (\<lambda>p d. setdefault_append d (p_parent_position_id p) (p_id p)) ps []"

text \<open>
  \<open>child_ids.sort(key=...)\<close>: the key of every id is computed first (a missing id raises
  KeyError), then the ids are sorted by key, stably.
\<close>

definition sort_child_ids :: "(int \<rightharpoonup> position) \<Rightarrow> int list \<Rightarrow> error + int list" where
  "sort_child_ids position_by_id ids =
     (case collect (map (\<lambda>pid. case position_by_id pid of
                                  None \<Rightarrow> Inl KeyError
                                | Some p \<Rightarrow> Inr ((p_department p, p_title p), pid)) ids) of
        Inl e \<Rightarrow> Inl e
      | Inr keyed \<Rightarrow> Inr (map snd (sort_key fst keyed)))"

definition sort_children :: "(int \<rightharpoonup> position) \<Rightarrow> children \<Rightarrow> error + children" where
  "sort_children position_by_id d =
     collect (map (\<lambda>(k, ids). case sort_child_ids position_by_id ids of
                                 Inl e \<Rightarrow> Inl e
                               | Inr ids' \<Rightarrow> Inr (k, ids')) d)"




text \<open>
  \<open>_add_position\<close> (app.py 209-223). The outcome is a normal return, a warning box
  followed by an early return, or an exception.
\<close>

datatype outcome = Done | Warned string string | Raised error

definition add_position_app :: "app \<Rightarrow> database \<Rightarrow> outcome \<times> app \<times> database" where
  "add_position_app a db =
     (case scenario_id a of
        None \<Rightarrow> (Warned ''Missing scenario'' ''Please select a scenario first.'', a, db)
      | Some sid \<Rightarrow>
         (let title = strip (position_title a);
              department = strip (position_department a) in
          if title = [] \<or> department = []
          then (Warned ''Missing data'' ''Title and department are required.'', a, db)
          else
            let parent_id = combo_value_to_id (position_parent a) (positions_cache a) in
            case add_position db sid title department parent_id of
              (Some e, db') \<Rightarrow> (Raised e, a, db')
            | (None, db') \<Rightarrow>
               (let a1 = a\<lparr>position_title := [], position_department := [],
                           position_parent := []\<rparr> in
                case refresh_positions a1 db' of
                  (Some e, a2) \<Rightarrow> (Raised e, a2, db')
                | (None, a2) \<Rightarrow> (Done, a2, db'))))"

subsection \<open>What the chart of a position is\<close>


section \<open>A small database used in the examples\<close>

definition example_db :: database where
  "example_db =
     \<lparr>scenarios = \<lparr>t_rows =
         [\<lparr>s_id = 1, s_name = ''First quarter'', s_year = 2024, s_quarter = 1,
           s_start_date = ''2024-01-01'', s_end_date = ''2024-04-01''\<rparr>], t_seq = 1\<rparr>,
      positions = \<lparr>t_rows =
         [\<lparr>p_id = 1, p_scenario_id = 1, p_title = ''CEO'', p_department = ''Board'',
           p_parent_position_id = None\<rparr>,
          \<lparr>p_id = 2, p_scenario_id = 1, p_title = ''CTO'', p_department = ''Engineering'',
           p_parent_position_id = Some 1\<rparr>,
          \<lparr>p_id = 3, p_scenario_id = 1, p_title = ''Developer'', p_department = ''Engineering'',
           p_parent_position_id = Some 2\<rparr>,
          \<lparr>p_id = 4, p_scenario_id = 1, p_title = ''Architect'', p_department = ''Engineering'',
           p_parent_position_id = Some 2\<rparr>], t_seq = 4\<rparr>,
      employees = \<lparr>t_rows =
         [\<lparr>e_id = 1, e_employee_code = ''E001'', e_full_name = ''Ann''\<rparr>,
          \<lparr>e_id = 2, e_employee_code = ''E002'', e_full_name = ''Bob''\<rparr>], t_seq = 2\<rparr>,
      assignments = \<lparr>t_rows =
         [\<lparr>a_id = 1, a_employee_id = 1, a_position_id = 2, a_start_date = ''2023-01-01'',
           a_end_date = None\<rparr>,
          \<lparr>a_id = 2, a_employee_id = 2, a_position_id = 3, a_start_date = ''2023-02-01'',
           a_end_date = None\<rparr>], t_seq = 2\<rparr>\<rparr>"

text \<open>
  The application after \<open>_refresh_positions\<close> on that database, with scenario 1
  selected and the position form filled in.
\<close>

definition example_app :: app where
  "example_app = snd (refresh_positions
     \<lparr>scenario_id = Some 1, positions_cache = Map.empty,
      position_title = '' Tester'', position_department = ''Quality '',
      position_parent = '' CEO'', chart_root = [], chart_tree = []\<rparr> example_db)"

section \<open>Properties of the store\<close>

subsection \<open>Moving an employee\<close>

lemma a_id_close_assignment: "a_id (close_assignment d e a) = a_id a"
  by (simp add: close_assignment_def)

lemma move_employee_result:
  "move_employee db e p d =
     (if int64 e \<and> int64 p
      then (None, db\<lparr>assignments :=
              \<lparr>t_rows = map (close_assignment d e) (t_rows (assignments db)) @
                 [\<lparr>a_id = new_rowid (t_seq (assignments db)) (map a_id (t_rows (assignments db))),
                   a_employee_id = e, a_position_id = p, a_start_date = d, a_end_date = None\<rparr>],
               t_seq = new_rowid (t_seq (assignments db)) (map a_id (t_rows (assignments db)))\<rparr>\<rparr>)
      else (Some OverflowError, db))"
  by (simp add: move_employee_def move_employee_body_def with_connect_def connect_def execute_def
      begin_if_needed_def commit_def rollback_def Let_def comp_def a_id_close_assignment)

lemma no_open_after_close:
  "filter (\<lambda>a. a_employee_id a = e \<and> a_end_date a = None) (map (close_assignment d e) xs) = []"
  by (induction xs) (auto simp: close_assignment_def)

lemma open_rows_after_move:
  "filter (\<lambda>a. a_employee_id a = e \<and> a_end_date a = None)
     (map (close_assignment d e) xs @
       [\<lparr>a_id = i, a_employee_id = e, a_position_id = p, a_start_date = d, a_end_date = None\<rparr>])
   = [\<lparr>a_id = i, a_employee_id = e, a_position_id = p, a_start_date = d, a_end_date = None\<rparr>]"
  by (simp add: no_open_after_close)

lemma closed_row_present:
  "a \<in> set xs \<Longrightarrow> a_employee_id a = e \<Longrightarrow> a_end_date a = None \<Longrightarrow>
   a\<lparr>a_end_date := Some d\<rparr> \<in> set (map (close_assignment d e) xs)"
  by (force simp: close_assignment_def image_iff)

lemma int64_small: "int64 1" "int64 2" "int64 3"
  by (simp_all add: int64_def)

text \<open>
  Claim C1. A call of \<open>move_employee\<close> whose integers fit 64 bits returns normally.
  After a call that returns, the employee has exactly one open assignment (end date
  null), the row just inserted for the new position and start date, and every assignment
  of the employee that was open before, however many, is now closed with the start date
  as its end date. In particular, after a move on 2024-01-01 and a second move on
  2024-04-01 the only open assignment is the second one and the first one ends on
  2024-04-01.
\<close>

theorem move_employee_single_open:
  "(int64 e \<and> int64 p \<longrightarrow> fst (move_employee db e p d) = None) \<and>
   (\<forall>db'. move_employee db e p d = (None, db') \<longrightarrow>
      (\<exists>i. filter (\<lambda>a. a_employee_id a = e \<and> a_end_date a = None) (t_rows (assignments db'))
             = [\<lparr>a_id = i, a_employee_id = e, a_position_id = p, a_start_date = d,
                 a_end_date = None\<rparr>]) \<and>
      (\<forall>a \<in> set (t_rows (assignments db)).
         a_employee_id a = e \<and> a_end_date a = None \<longrightarrow>
           a\<lparr>a_end_date := Some d\<rparr> \<in> set (t_rows (assignments db'))) \<and>
      (\<forall>p2 db''. d = ''2024-01-01'' \<and> move_employee db' e p2 ''2024-04-01'' = (None, db'') \<longrightarrow>
         (\<exists>i j. filter (\<lambda>a. a_employee_id a = e \<and> a_end_date a = None)
                  (t_rows (assignments db''))
                 = [\<lparr>a_id = j, a_employee_id = e, a_position_id = p2,
                     a_start_date = ''2024-04-01'', a_end_date = None\<rparr>] \<and>
               \<lparr>a_id = i, a_employee_id = e, a_position_id = p, a_start_date = ''2024-01-01'',
                 a_end_date = Some ''2024-04-01''\<rparr> \<in> set (t_rows (assignments db'')))))"
proof (intro conjI allI impI ballI)
  assume "int64 e \<and> int64 p"
  then show "fst (move_employee db e p d) = None"
    by (simp add: move_employee_result)
next
  fix db' assume m: "move_employee db e p d = (None, db')"
  let ?i = "new_rowid (t_seq (assignments db)) (map a_id (t_rows (assignments db)))"
  let ?new = "\<lparr>a_id = ?i, a_employee_id = e, a_position_id = p, a_start_date = d,
      a_end_date = None\<rparr>"
  from m have rows: "t_rows (assignments db') =
      map (close_assignment d e) (t_rows (assignments db)) @ [?new]"
    by (auto simp: move_employee_result split: if_splits)
  show "\<exists>i. filter (\<lambda>a. a_employee_id a = e \<and> a_end_date a = None) (t_rows (assignments db'))
             = [\<lparr>a_id = i, a_employee_id = e, a_position_id = p, a_start_date = d,
                 a_end_date = None\<rparr>]"
    unfolding rows by (rule exI [of _ ?i]) (rule open_rows_after_move)
  {
    fix a assume "a \<in> set (t_rows (assignments db))" "a_employee_id a = e \<and> a_end_date a = None"
    then show "a\<lparr>a_end_date := Some d\<rparr> \<in> set (t_rows (assignments db'))"
      unfolding rows using closed_row_present [of a _ e d] by simp
  }
  fix p2 db''
  assume m2: "d = ''2024-01-01'' \<and> move_employee db' e p2 ''2024-04-01'' = (None, db'')"
  let ?j = "new_rowid (t_seq (assignments db')) (map a_id (t_rows (assignments db')))"
  let ?d2 = "''2024-04-01''"
  let ?new2 = "\<lparr>a_id = ?j, a_employee_id = e, a_position_id = p2, a_start_date = ?d2,
      a_end_date = None\<rparr>"
  from m2 have rows2: "t_rows (assignments db'') =
      map (close_assignment ?d2 e) (t_rows (assignments db')) @ [?new2]"
    by (auto simp: move_employee_result split: if_splits)
  have open2: "filter (\<lambda>a. a_employee_id a = e \<and> a_end_date a = None) (t_rows (assignments db''))
      = [?new2]"
    unfolding rows2 by (rule open_rows_after_move)
  have "?new\<lparr>a_end_date := Some ?d2\<rparr> \<in> set (map (close_assignment ?d2 e) (t_rows (assignments db')))"
    by (rule closed_row_present) (simp_all add: rows)
  with m2 have first: "\<lparr>a_id = ?i, a_employee_id = e, a_position_id = p,
      a_start_date = ''2024-01-01'', a_end_date = Some ?d2\<rparr> \<in> set (t_rows (assignments db''))"
    unfolding rows2 by simp
  show "\<exists>i j. filter (\<lambda>a. a_employee_id a = e \<and> a_end_date a = None)
                  (t_rows (assignments db''))
                 = [\<lparr>a_id = j, a_employee_id = e, a_position_id = p2,
                     a_start_date = ''2024-04-01'', a_end_date = None\<rparr>] \<and>
               \<lparr>a_id = i, a_employee_id = e, a_position_id = p, a_start_date = ''2024-01-01'',
                 a_end_date = Some ''2024-04-01''\<rparr> \<in> set (t_rows (assignments db''))"
    using open2 first by blast
qed

theorem move_employee_single_open_witness:
  "int64 1 \<and> int64 3 \<and>
   move_employee example_db 1 3 ''2024-01-01'' =
     (None, example_db\<lparr>assignments := \<lparr>t_rows =
         [\<lparr>a_id = 1, a_employee_id = 1, a_position_id = 2, a_start_date = ''2023-01-01'',
           a_end_date = Some ''2024-01-01''\<rparr>,
          \<lparr>a_id = 2, a_employee_id = 2, a_position_id = 3, a_start_date = ''2023-02-01'',
           a_end_date = None\<rparr>,
          \<lparr>a_id = 3, a_employee_id = 1, a_position_id = 3, a_start_date = ''2024-01-01'',
           a_end_date = None\<rparr>], t_seq = 3\<rparr>\<rparr>) \<and>
   (\<exists>i. filter (\<lambda>a. a_employee_id a = 1 \<and> a_end_date a = None)
          (t_rows (assignments (snd (move_employee example_db 1 3 ''2024-01-01''))))
        = [\<lparr>a_id = i, a_employee_id = 1, a_position_id = 3, a_start_date = ''2024-01-01'',
            a_end_date = None\<rparr>])"
proof -
  have r: "move_employee example_db 1 3 ''2024-01-01'' =
     (None, example_db\<lparr>assignments := \<lparr>t_rows =
         [\<lparr>a_id = 1, a_employee_id = 1, a_position_id = 2, a_start_date = ''2023-01-01'',
           a_end_date = Some ''2024-01-01''\<rparr>,
          \<lparr>a_id = 2, a_employee_id = 2, a_position_id = 3, a_start_date = ''2023-02-01'',
           a_end_date = None\<rparr>,
          \<lparr>a_id = 3, a_employee_id = 1, a_position_id = 3, a_start_date = ''2024-01-01'',
           a_end_date = None\<rparr>], t_seq = 3\<rparr>\<rparr>)"
    by (simp add: move_employee_result int64_small example_db_def close_assignment_def
        new_rowid_def)
  from move_employee_single_open [of 1 3 example_db "''2024-01-01''"] r
  show ?thesis by (simp add: int64_small)
qed

text \<open>
  Claim C2. \<open>move_employee\<close> is atomic: a call either returns normally with both steps
  done (the open assignments closed and the new one inserted), or raises and leaves the
  database as it was. The example after the theorem is a call whose first statement
  succeeds and changes the connection's view of the table, whose second statement fails
  when its position id is bound, and which leaves the file unchanged.
\<close>

theorem move_employee_atomic:
  "move_employee db e p d = (r, db') \<Longrightarrow>
     (r = None \<and>
      (\<exists>i. db' = db\<lparr>assignments := \<lparr>t_rows =
          map (\<lambda>a. if a_employee_id a = e \<and> a_end_date a = None
                    then a\<lparr>a_end_date := Some d\<rparr> else a) (t_rows (assignments db)) @
          [\<lparr>a_id = i, a_employee_id = e, a_position_id = p, a_start_date = d,
            a_end_date = None\<rparr>], t_seq = i\<rparr>\<rparr>))
     \<or> (r \<noteq> None \<and> db' = db)"
  unfolding move_employee_result
  by (auto simp: close_assignment_def [abs_def] split: if_splits)

theorem move_employee_atomic_witness:
  "fst (execute (connect example_db) (Close_open_assignments ''2024-01-01'' 1)) = None \<and>
   contents (snd (execute (connect example_db) (Close_open_assignments ''2024-01-01'' 1)))
     \<noteq> example_db \<and>
   move_employee example_db 1 (2 ^ 63) ''2024-01-01'' = (Some OverflowError, example_db)"
proof -
  have m: "move_employee example_db 1 (2 ^ 63) ''2024-01-01'' = (Some OverflowError, example_db)"
    by (simp add: move_employee_result int64_def)
  have s: "fst (execute (connect example_db) (Close_open_assignments ''2024-01-01'' 1)) = None"
    by (simp add: execute_def connect_def begin_if_needed_def int64_def Let_def)
  have "t_rows (assignments (contents (snd (execute (connect example_db)
          (Close_open_assignments ''2024-01-01'' 1))))) \<noteq> t_rows (assignments example_db)"
    by (simp add: execute_def connect_def begin_if_needed_def int64_def Let_def example_db_def
        close_assignment_def)
  then have c: "contents (snd (execute (connect example_db)
      (Close_open_assignments ''2024-01-01'' 1))) \<noteq> example_db"
    by auto
  from move_employee_atomic [OF m] s c m show ?thesis by simp
qed

subsection \<open>Adding an employee whose code exists\<close>

text \<open>
  Claim C9. When an employee with the given code exists, \<open>add_employee\<close> raises
  IntegrityError (the UNIQUE constraint) to its caller and the database is unchanged.
\<close>

theorem add_employee_duplicate_code:
  "\<exists>r \<in> set (t_rows (employees db)). e_employee_code r = c \<Longrightarrow>
   add_employee db c n = (Some IntegrityError, db)"
  by (simp add: add_employee_def with_connect_def connect_def execute_def begin_if_needed_def
      rollback_def Let_def)

theorem add_employee_duplicate_code_witness:
  "(\<exists>r \<in> set (t_rows (employees example_db)). e_employee_code r = ''E001'') \<and>
   add_employee example_db ''E001'' ''Zoe'' = (Some IntegrityError, example_db)"
proof -
  have h: "\<exists>r \<in> set (t_rows (employees example_db)). e_employee_code r = ''E001''"
    by (simp add: example_db_def)
  from h add_employee_duplicate_code [OF h, of "''Zoe''"] show ?thesis by simp
qed

subsection \<open>Deleting a position or an employee\<close>

text \<open>
  The two deletions run on a connection of \<open>_connect\<close>, on which \<open>foreign_keys\<close> is off:
  they remove the one row and nothing else. On a connection with the pragma on, the same
  statements would clear the children's parent and remove the employee's assignments, as
  the schema declares.
\<close>

lemma delete_position_result:
  "delete_position db i =
     (if int64 i
      then (None, db\<lparr>positions := (positions db)
                      \<lparr>t_rows := filter (\<lambda>p. p_id p \<noteq> i) (t_rows (positions db))\<rparr>\<rparr>)
      else (Some OverflowError, db))"
  by (simp add: delete_position_def with_connect_def connect_def execute_def begin_if_needed_def
      commit_def rollback_def Let_def)

lemma delete_employee_result:
  "delete_employee db i =
     (if int64 i
      then (None, db\<lparr>employees := (employees db)
                      \<lparr>t_rows := filter (\<lambda>e. e_id e \<noteq> i) (t_rows (employees db))\<rparr>\<rparr>)
      else (Some OverflowError, db))"
  by (simp add: delete_employee_def with_connect_def connect_def execute_def begin_if_needed_def
      commit_def rollback_def Let_def)

lemma foreign_keys_delete_position:
  "i \<in> set (map p_id (t_rows (positions db))) \<Longrightarrow>
   step True (Delete_position i) db = Inr db' \<Longrightarrow>
   t_rows (positions db') =
     map (\<lambda>p. if p_parent_position_id p = Some i then p\<lparr>p_parent_position_id := None\<rparr> else p)
       (filter (\<lambda>p. p_id p \<noteq> i) (t_rows (positions db)))"
  by (auto simp: Let_def clear_parent_def)

lemma foreign_keys_delete_employee:
  "i \<in> set (map e_id (t_rows (employees db))) \<Longrightarrow>
   step True (Delete_employee i) db = Inr db' \<Longrightarrow>
   t_rows (assignments db') = filter (\<lambda>a. a_employee_id a \<noteq> i) (t_rows (assignments db))"
  by (auto simp: Let_def)

text \<open>
  Claim C3 says that deleting a position sets the \<open>parent_position_id\<close> of its children
  to null. In \<open>example_db\<close> the CTO (id 2) reports to the CEO (id 1); after
  \<open>delete_position\<close> of id 1 the row of the CTO still has parent id 1.
\<close>

theorem delete_position_keeps_parent_reference:
  "delete_position example_db 1 =
     (None, example_db\<lparr>positions := \<lparr>t_rows =
         [\<lparr>p_id = 2, p_scenario_id = 1, p_title = ''CTO'', p_department = ''Engineering'',
           p_parent_position_id = Some 1\<rparr>,
          \<lparr>p_id = 3, p_scenario_id = 1, p_title = ''Developer'', p_department = ''Engineering'',
           p_parent_position_id = Some 2\<rparr>,
          \<lparr>p_id = 4, p_scenario_id = 1, p_title = ''Architect'', p_department = ''Engineering'',
           p_parent_position_id = Some 2\<rparr>], t_seq = 4\<rparr>\<rparr>)"
  by (simp add: delete_position_result int64_small example_db_def)

text \<open>
  Claim C4 says that deleting an employee removes the employee's assignments. In
  \<open>example_db\<close> Ann (id 1) has assignment 1; after \<open>delete_employee\<close> of id 1 the
  assignments table is unchanged and still holds that row.
\<close>

theorem delete_employee_keeps_assignments:
  "delete_employee example_db 1 =
     (None, example_db\<lparr>employees := \<lparr>t_rows =
         [\<lparr>e_id = 2, e_employee_code = ''E002'', e_full_name = ''Bob''\<rparr>], t_seq = 2\<rparr>\<rparr>) \<and>
   t_rows (assignments (snd (delete_employee example_db 1))) =
     [\<lparr>a_id = 1, a_employee_id = 1, a_position_id = 2, a_start_date = ''2023-01-01'',
       a_end_date = None\<rparr>,
      \<lparr>a_id = 2, a_employee_id = 2, a_position_id = 3, a_start_date = ''2023-02-01'',
       a_end_date = None\<rparr>]"
  by (simp add: delete_employee_result int64_small example_db_def)

subsection \<open>Seeding\<close>

lemma str_int_examples:
  "str_int 2024 = ''2024''" "str_int 2025 = ''2025''"
  "str_int 1 = ''1''" "str_int 2 = ''2''" "str_int 3 = ''3''" "str_int 4 = ''4''"
  "str_int 7 = ''7''" "str_int 10 = ''10''"
  by code_simp+

lemma seed_scenarios_2024:
  "seed_scenarios 2024 1 = Inr
     [(''FY2024 Q1'', 2024, 1, ''2024-01-01'', ''2024-04-01''),
      (''FY2024 Q2'', 2024, 2, ''2024-04-01'', ''2024-07-01''),
      (''FY2024 Q3'', 2024, 3, ''2024-07-01'', ''2024-10-01''),
      (''FY2024 Q4'', 2024, 4, ''2024-10-01'', ''2025-01-01'')]"
  by (simp add: seed_scenarios_def quarter_scenario_def mk_date_def replace_day_def
      days_in_month_def isoformat_def zero_pad_def str_int_examples upto_rec1 Let_def)

text \<open>
  Claim C6. Seeding one year in 2024 into an empty store returns normally and leaves
  exactly the four scenarios FY2024 Q1 to FY2024 Q4, each from the first day of its
  quarter to the first day of the month after it.
\<close>

theorem seed_2024_on_empty_store:
  "seed_quarter_scenarios empty_database 2024 1 =
   (None, empty_database\<lparr>scenarios := \<lparr>t_rows =
      [\<lparr>s_id = 1, s_name = ''FY2024 Q1'', s_year = 2024, s_quarter = 1,
         s_start_date = ''2024-01-01'', s_end_date = ''2024-04-01''\<rparr>,
       \<lparr>s_id = 2, s_name = ''FY2024 Q2'', s_year = 2024, s_quarter = 2,
         s_start_date = ''2024-04-01'', s_end_date = ''2024-07-01''\<rparr>,
       \<lparr>s_id = 3, s_name = ''FY2024 Q3'', s_year = 2024, s_quarter = 3,
         s_start_date = ''2024-07-01'', s_end_date = ''2024-10-01''\<rparr>,
       \<lparr>s_id = 4, s_name = ''FY2024 Q4'', s_year = 2024, s_quarter = 4,
         s_start_date = ''2024-10-01'', s_end_date = ''2025-01-01''\<rparr>], t_seq = 4\<rparr>\<rparr>)"
  by (simp add: seed_quarter_scenarios_def seed_scenarios_2024 with_connect_def connect_def
      execute_def begin_if_needed_def commit_def Let_def insert_or_ignore_scenario_def
      int64_def new_rowid_def empty_database_def empty_table_def)

text \<open>
  What a block of \<open>executemany\<close> leaves behind: after an exception the database is the
  one before the block; after a normal return of the scenario inserts, the old rows are
  still there, unchanged and in place, followed by one new row for each (year, quarter)
  that was missing.
\<close>

lemma rollback_connect: "contents (rollback (connect db)) = db"
  by (simp add: rollback_def connect_def)

lemma rollback_execute: "contents (rollback (snd (execute c st))) = contents (rollback c)"
  by (cases "snapshot c")
     (auto simp: execute_def Let_def begin_if_needed_def rollback_def split: sum.splits)

lemma rollback_executemany:
  "contents (rollback (snd (executemany c sql ps))) = contents (rollback c)"
proof (induction ps arbitrary: c)
  case Nil
  then show ?case by simp
next
  case (Cons p ps)
  obtain r c1 where e: "execute c (sql p) = (r, c1)" by (cases "execute c (sql p)")
  have "contents (rollback c1) = contents (rollback c)"
    using rollback_execute [of c "sql p"] e by simp
  with Cons.IH [of c1] e show ?case by (cases r) simp_all
qed

lemma with_connect_executemany_raises:
  "with_connect db (\<lambda>c. executemany c sql ps) = (Some e, db') \<Longrightarrow> db' = db"
proof -
  assume a: "with_connect db (\<lambda>c. executemany c sql ps) = (Some e, db')"
  obtain r c1 where x: "executemany (connect db) sql ps = (r, c1)"
    by (cases "executemany (connect db) sql ps")
  from a x have "db' = contents (rollback c1)"
    by (cases r) (simp_all add: with_connect_def)
  also have "\<dots> = db"
    using rollback_executemany [of "connect db" sql ps] x by (simp add: rollback_connect)
  finally show ?thesis .
qed

lemma with_connect_executemany_returns:
  "with_connect db (\<lambda>c. executemany c sql ps) = (None, db') \<Longrightarrow>
   \<exists>c'. executemany (connect db) sql ps = (None, c') \<and> db' = contents c'"
  by (auto simp: with_connect_def commit_def split: prod.splits option.splits)

lemma execute_insert_or_ignore_scenario:
  "execute c (insert_or_ignore_scenario (n, y, q, sd, ed)) =
     (if int64 y \<and> int64 q
      then (None, (begin_if_needed c)\<lparr>contents :=
             (if \<exists>r \<in> set (t_rows (scenarios (contents c))). s_year r = y \<and> s_quarter r = q
              then (contents c)\<lparr>scenarios := (scenarios (contents c))
                     \<lparr>t_seq := new_rowid (t_seq (scenarios (contents c)))
                                 (map s_id (t_rows (scenarios (contents c))))\<rparr>\<rparr>
              else (contents c)\<lparr>scenarios := \<lparr>t_rows = t_rows (scenarios (contents c)) @
                     [\<lparr>s_id = new_rowid (t_seq (scenarios (contents c)))
                                 (map s_id (t_rows (scenarios (contents c)))),
                       s_name = n, s_year = y, s_quarter = q,
                       s_start_date = sd, s_end_date = ed\<rparr>],
                     t_seq = new_rowid (t_seq (scenarios (contents c)))
                                 (map s_id (t_rows (scenarios (contents c))))\<rparr>\<rparr>)\<rparr>)
      else (Some OverflowError, begin_if_needed c))"
  by (cases "snapshot c")
     (simp_all add: execute_def insert_or_ignore_scenario_def Let_def begin_if_needed_def)

lemma executemany_scenarios_returns:
  "executemany c insert_or_ignore_scenario ps = (None, c') \<Longrightarrow>
   (\<forall>p \<in> set ps. bindable (insert_or_ignore_scenario p)) \<and>
   (\<exists>new. t_rows (scenarios (contents c')) = t_rows (scenarios (contents c)) @ new \<and>
      distinct (map (\<lambda>s. (s_year s, s_quarter s)) new) \<and>
      (\<forall>s \<in> set new. \<forall>r \<in> set (t_rows (scenarios (contents c))).
          \<not> (s_year r = s_year s \<and> s_quarter r = s_quarter s)) \<and>
      (\<forall>p \<in> set ps. \<exists>r \<in> set (t_rows (scenarios (contents c'))).
          s_year r = fst (snd p) \<and> s_quarter r = fst (snd (snd p))))"
proof (induction ps arbitrary: c)
  case Nil
  then show ?case by simp
next
  case (Cons p ps)
  obtain n y q sd ed where p: "p = (n, y, q, sd, ed)" by (cases p)
  let ?R = "t_rows (scenarios (contents c))"
  from Cons.prems have b: "int64 y \<and> int64 q"
    by (auto simp: p execute_insert_or_ignore_scenario split: if_splits)
  obtain c1 where c1: "execute c (insert_or_ignore_scenario p) = (None, c1)"
    and rest: "executemany c1 insert_or_ignore_scenario ps = (None, c')"
    using Cons.prems by (auto split: prod.splits option.splits)
  note ih = Cons.IH [OF rest]
  then obtain new where new: "t_rows (scenarios (contents c')) = t_rows (scenarios (contents c1)) @ new"
    "distinct (map (\<lambda>s. (s_year s, s_quarter s)) new)"
    "\<forall>s \<in> set new. \<forall>r \<in> set (t_rows (scenarios (contents c1))).
          \<not> (s_year r = s_year s \<and> s_quarter r = s_quarter s)"
    "\<forall>p \<in> set ps. \<exists>r \<in> set (t_rows (scenarios (contents c'))).
          s_year r = fst (snd p) \<and> s_quarter r = fst (snd (snd p))"
    by blast
  have bind: "\<forall>p' \<in> set (p # ps). bindable (insert_or_ignore_scenario p')"
    using ih b by (simp add: p insert_or_ignore_scenario_def)
  show ?case
  proof (cases "\<exists>r \<in> set ?R. s_year r = y \<and> s_quarter r = q")
    case True
    with c1 b have R1: "t_rows (scenarios (contents c1)) = ?R"
      by (auto simp: p execute_insert_or_ignore_scenario)
    have "\<exists>r \<in> set (t_rows (scenarios (contents c'))). s_year r = y \<and> s_quarter r = q"
      using True new(1) R1 by auto
    with new R1 bind show ?thesis
      by (intro conjI, blast, intro exI [of _ new]) (simp add: p)
  next
    case False
    let ?row = "\<lparr>s_id = new_rowid (t_seq (scenarios (contents c))) (map s_id ?R),
        s_name = n, s_year = y, s_quarter = q, s_start_date = sd, s_end_date = ed\<rparr>"
    from False c1 b have R1: "t_rows (scenarios (contents c1)) = ?R @ [?row]"
      by (auto simp: p execute_insert_or_ignore_scenario)
    have 1: "t_rows (scenarios (contents c')) = ?R @ (?row # new)"
      using new(1) R1 by simp
    have 2: "distinct (map (\<lambda>s. (s_year s, s_quarter s)) (?row # new))"
      using new(2,3) R1 by auto
    have 3: "\<forall>s \<in> set (?row # new). \<forall>r \<in> set ?R.
          \<not> (s_year r = s_year s \<and> s_quarter r = s_quarter s)"
      using new(3) R1 False by auto
    have 4: "\<forall>p' \<in> set (p # ps). \<exists>r \<in> set (t_rows (scenarios (contents c'))).
          s_year r = fst (snd p') \<and> s_quarter r = fst (snd (snd p'))"
      using new(4) 1 by (auto simp: p)
    from 1 2 3 4 bind show ?thesis by blast
  qed
qed

lemma executemany_scenarios_present:
  "\<forall>p \<in> set ps. bindable (insert_or_ignore_scenario p) \<Longrightarrow>
   \<forall>p \<in> set ps. \<exists>r \<in> set (t_rows (scenarios (contents c))).
          s_year r = fst (snd p) \<and> s_quarter r = fst (snd (snd p)) \<Longrightarrow>
   \<exists>c'. executemany c insert_or_ignore_scenario ps = (None, c') \<and>
        t_rows (scenarios (contents c')) = t_rows (scenarios (contents c))"
proof (induction ps arbitrary: c)
  case Nil
  then show ?case by simp
next
  case (Cons p ps)
  obtain n y q sd ed where p: "p = (n, y, q, sd, ed)" by (cases p)
  from Cons.prems(1) have b: "int64 y \<and> int64 q"
    by (simp add: p insert_or_ignore_scenario_def)
  from Cons.prems(2) have here: "\<exists>r \<in> set (t_rows (scenarios (contents c))). s_year r = y \<and> s_quarter r = q"
    by (simp add: p)
  obtain c1 where c1: "execute c (insert_or_ignore_scenario p) = (None, c1)"
    and R1: "t_rows (scenarios (contents c1)) = t_rows (scenarios (contents c))"
    using b here by (simp add: p execute_insert_or_ignore_scenario)
  from Cons.IH [of c1] Cons.prems R1 obtain c' where
    "executemany c1 insert_or_ignore_scenario ps = (None, c')"
    "t_rows (scenarios (contents c')) = t_rows (scenarios (contents c1))"
    by auto
  with c1 R1 show ?case by simp
qed

text \<open>
  Claim C5. Seeding is idempotent: a second \<open>seed_quarter_scenarios\<close> with the same
  year and number of years ends as the first did and leaves the scenario rows of the
  first unchanged. The first call keeps every row that was there, untouched and in
  place, and adds rows only for (year, quarter) pairs that had none, one each.
\<close>

theorem seed_quarter_scenarios_idempotent:
  "seed_quarter_scenarios db y n = (r1, db1) \<Longrightarrow>
   seed_quarter_scenarios db1 y n = (r2, db2) \<Longrightarrow>
   r2 = r1 \<and> t_rows (scenarios db2) = t_rows (scenarios db1) \<and>
   (\<exists>new. t_rows (scenarios db1) = t_rows (scenarios db) @ new \<and>
      distinct (map (\<lambda>s. (s_year s, s_quarter s)) new) \<and>
      (\<forall>s \<in> set new. \<forall>r \<in> set (t_rows (scenarios db)).
          \<not> (s_year r = s_year s \<and> s_quarter r = s_quarter s)))"
proof (cases r1)
  case (Some e)
  assume s1: "seed_quarter_scenarios db y n = (r1, db1)"
    and s2: "seed_quarter_scenarios db1 y n = (r2, db2)"
  from s1 Some have "db1 = db"
    by (auto simp: seed_quarter_scenarios_def split: sum.splits
        dest: with_connect_executemany_raises)
  with s1 s2 show ?thesis by simp
next
  case None
  assume s1: "seed_quarter_scenarios db y n = (r1, db1)"
    and s2: "seed_quarter_scenarios db1 y n = (r2, db2)"
  from s1 None obtain scs where scs: "seed_scenarios y n = Inr scs"
    and w1: "with_connect db (\<lambda>c. executemany c insert_or_ignore_scenario scs) = (None, db1)"
    by (auto simp: seed_quarter_scenarios_def split: sum.splits)
  from with_connect_executemany_returns [OF w1] obtain c1 where
    c1: "executemany (connect db) insert_or_ignore_scenario scs = (None, c1)" "db1 = contents c1"
    by blast
  from executemany_scenarios_returns [OF c1(1)] obtain new where
    bind: "\<forall>p \<in> set scs. bindable (insert_or_ignore_scenario p)"
    and new: "t_rows (scenarios db1) = t_rows (scenarios db) @ new"
      "distinct (map (\<lambda>s. (s_year s, s_quarter s)) new)"
      "\<forall>s \<in> set new. \<forall>r \<in> set (t_rows (scenarios db)).
          \<not> (s_year r = s_year s \<and> s_quarter r = s_quarter s)"
    and pres: "\<forall>p \<in> set scs. \<exists>r \<in> set (t_rows (scenarios db1)).
          s_year r = fst (snd p) \<and> s_quarter r = fst (snd (snd p))"
    unfolding c1(2) by (auto simp: connect_def)
  from executemany_scenarios_present [of scs "connect db1"] bind pres obtain c2 where
    c2: "executemany (connect db1) insert_or_ignore_scenario scs = (None, c2)"
      "t_rows (scenarios (contents c2)) = t_rows (scenarios db1)"
    by (auto simp: connect_def)
  from s2 scs c2 have "r2 = None" "t_rows (scenarios db2) = t_rows (scenarios db1)"
    by (auto simp: seed_quarter_scenarios_def with_connect_def commit_def)
  with None new show ?thesis by blast
qed

lemma seed_example_db:
  "seed_quarter_scenarios example_db 2024 1 =
   (None, example_db\<lparr>scenarios := \<lparr>t_rows =
      [\<lparr>s_id = 1, s_name = ''First quarter'', s_year = 2024, s_quarter = 1,
         s_start_date = ''2024-01-01'', s_end_date = ''2024-04-01''\<rparr>,
       \<lparr>s_id = 3, s_name = ''FY2024 Q2'', s_year = 2024, s_quarter = 2,
         s_start_date = ''2024-04-01'', s_end_date = ''2024-07-01''\<rparr>,
       \<lparr>s_id = 4, s_name = ''FY2024 Q3'', s_year = 2024, s_quarter = 3,
         s_start_date = ''2024-07-01'', s_end_date = ''2024-10-01''\<rparr>,
       \<lparr>s_id = 5, s_name = ''FY2024 Q4'', s_year = 2024, s_quarter = 4,
         s_start_date = ''2024-10-01'', s_end_date = ''2025-01-01''\<rparr>], t_seq = 5\<rparr>\<rparr>)"
  by (simp add: seed_quarter_scenarios_def seed_scenarios_2024 with_connect_def connect_def
      execute_def begin_if_needed_def commit_def Let_def insert_or_ignore_scenario_def
      int64_def new_rowid_def example_db_def)

lemma seed_example_db_again:
  "seed_quarter_scenarios (snd (seed_quarter_scenarios example_db 2024 1)) 2024 1 =
   (None, example_db\<lparr>scenarios := \<lparr>t_rows =
      [\<lparr>s_id = 1, s_name = ''First quarter'', s_year = 2024, s_quarter = 1,
         s_start_date = ''2024-01-01'', s_end_date = ''2024-04-01''\<rparr>,
       \<lparr>s_id = 3, s_name = ''FY2024 Q2'', s_year = 2024, s_quarter = 2,
         s_start_date = ''2024-04-01'', s_end_date = ''2024-07-01''\<rparr>,
       \<lparr>s_id = 4, s_name = ''FY2024 Q3'', s_year = 2024, s_quarter = 3,
         s_start_date = ''2024-07-01'', s_end_date = ''2024-10-01''\<rparr>,
       \<lparr>s_id = 5, s_name = ''FY2024 Q4'', s_year = 2024, s_quarter = 4,
         s_start_date = ''2024-10-01'', s_end_date = ''2025-01-01''\<rparr>], t_seq = 9\<rparr>\<rparr>)"
  unfolding seed_example_db
  by (simp add: seed_quarter_scenarios_def seed_scenarios_2024 with_connect_def connect_def
      execute_def begin_if_needed_def commit_def Let_def insert_or_ignore_scenario_def
      int64_def new_rowid_def example_db_def)

theorem seed_quarter_scenarios_idempotent_witness:
  "fst (seed_quarter_scenarios example_db 2024 1) = None \<and>
   map s_name (t_rows (scenarios (snd (seed_quarter_scenarios example_db 2024 1)))) =
     [''First quarter'', ''FY2024 Q2'', ''FY2024 Q3'', ''FY2024 Q4''] \<and>
   t_rows (scenarios (snd (seed_quarter_scenarios
       (snd (seed_quarter_scenarios example_db 2024 1)) 2024 1))) =
     t_rows (scenarios (snd (seed_quarter_scenarios example_db 2024 1)))"
proof -
  let ?d1 = "snd (seed_quarter_scenarios example_db 2024 1)"
  have 1: "seed_quarter_scenarios example_db 2024 1 = (None, ?d1)"
    by (simp add: seed_example_db)
  have 2: "seed_quarter_scenarios ?d1 2024 1 = (None, snd (seed_quarter_scenarios ?d1 2024 1))"
    by (simp add: seed_example_db_again)
  from seed_quarter_scenarios_idempotent [OF 1 2] show ?thesis
    by (simp add: seed_example_db)
qed

section \<open>Properties of the form and the org chart\<close>

subsection \<open>The dicts built from the position list\<close>

lemma position_by_id_of_snoc:
  "position_by_id_of (ps @ [p]) = (position_by_id_of ps)(p_id p \<mapsto> p)"
  by (simp add: position_by_id_of_def)


lemma position_by_id_of_dom:
  "p \<in> set ps \<Longrightarrow> \<exists>q. position_by_id_of ps (p_id p) = Some q"
  by (induction ps rule: rev_induct) (auto simp: position_by_id_of_snoc)





subsection \<open>The children of each parent\<close>

lemma children_get_setdefault_append:
  "children_get (setdefault_append d k v) k' =
     (if k' = k then children_get d k @ [v] else children_get d k')"
  by (induction d k v rule: setdefault_append.induct) (auto simp: children_get_def)

lemma children_get_fold:
  "children_get (fold (\<lambda>p d. setdefault_append d (p_parent_position_id p) (p_id p)) ps d) k =
   children_get d k @ map p_id (filter (\<lambda>p. p_parent_position_id p = k) ps)"
  by (induction ps arbitrary: d) (auto simp: children_get_setdefault_append)

lemma children_get_group_children:
  "children_get (group_children ps) k = map p_id (filter (\<lambda>p. p_parent_position_id p = k) ps)"
  by (simp add: group_children_def children_get_fold) (simp add: children_get_def)

lemma setdefault_append_values:
  "(k', ids) \<in> set (setdefault_append d k v) \<Longrightarrow>
   set ids \<subseteq> insert v (\<Union>(set ` snd ` set d))"
  by (induction d k v rule: setdefault_append.induct) (auto split: if_splits)

lemma fold_setdefault_append_values:
  "(k, ids) \<in> set (fold (\<lambda>p d. setdefault_append d (p_parent_position_id p) (p_id p)) ps d) \<Longrightarrow>
   set ids \<subseteq> p_id ` set ps \<union> \<Union>(set ` snd ` set d)"
proof (induction ps arbitrary: d)
  case Nil
  then show ?case by force
next
  case (Cons p ps)
  from Cons.IH [OF Cons.prems [simplified]]
  have "set ids \<subseteq> p_id ` set ps \<union>
      \<Union>(set ` snd ` set (setdefault_append d (p_parent_position_id p) (p_id p)))" .
  moreover have "\<Union>(set ` snd ` set (setdefault_append d (p_parent_position_id p) (p_id p)))
      \<subseteq> insert (p_id p) (\<Union>(set ` snd ` set d))"
    using setdefault_append_values by fastforce
  ultimately show ?case by auto
qed

lemma group_children_values:
  "(k, ids) \<in> set (group_children ps) \<Longrightarrow> set ids \<subseteq> p_id ` set ps"
  using fold_setdefault_append_values [of k ids ps "[]"] by (simp add: group_children_def)

subsection \<open>Sorting the sibling lists\<close>

lemma collect_map_Inr: "collect (map (\<lambda>x. Inr (f x)) xs) = Inr (map f xs)"
  by (induction xs) auto

lemma sort_child_ids_total:
  assumes "\<forall>i \<in> set ids. \<exists>p. pbi i = Some p"
  shows "sort_child_ids pbi ids =
    Inr (map snd (sort_key fst (map (\<lambda>i. (position_key (the (pbi i)), i)) ids)))"
proof -
  have eq: "map (\<lambda>pid. case pbi pid of None \<Rightarrow> Inl KeyError
                    | Some p \<Rightarrow> Inr ((p_department p, p_title p), pid)) ids
      = map (\<lambda>i. Inr (position_key (the (pbi i)), i)) ids"
    using assms by (auto simp: position_key_def)
  show ?thesis
    unfolding sort_child_ids_def eq collect_map_Inr by simp
qed

lemma sort_children_total:
  assumes "\<forall>(k, ids) \<in> set d. \<forall>i \<in> set ids. \<exists>p. pbi i = Some p"
  shows "sort_children pbi d =
    Inr (map (\<lambda>(k, ids). (k, map snd (sort_key fst
            (map (\<lambda>i. (position_key (the (pbi i)), i)) ids)))) d)"
proof -
  have "map (\<lambda>(k, ids). case sort_child_ids pbi ids of Inl e \<Rightarrow> Inl e
                          | Inr ids' \<Rightarrow> Inr (k, ids')) d
      = map (\<lambda>x. Inr ((\<lambda>(k, ids). (k, map snd (sort_key fst
            (map (\<lambda>i. (position_key (the (pbi i)), i)) ids)))) x)) d"
    using assms by (auto simp: sort_child_ids_total)
  then show ?thesis
    unfolding sort_children_def by (simp only: collect_map_Inr)
qed

lemma children_get_map:
  "f [] = [] \<Longrightarrow> children_get (map (\<lambda>(k, ids). (k, f ids)) d) k = f (children_get d k)"
  by (induction d) (auto simp: children_get_def)

lemma sorted_keyed:
  "map (\<lambda>i. position_key (the (pbi i)))
       (map snd (sort_key fst (map (\<lambda>i. (position_key (the (pbi i)), i)) ids)))
   = map fst (sort_key fst (map (\<lambda>i. (position_key (the (pbi i)), i)) ids))"
proof -
  have "\<forall>x \<in> set (sort_key fst (map (\<lambda>i. (position_key (the (pbi i)), i)) ids)).
          position_key (the (pbi (snd x))) = fst x"
    by auto
  then show ?thesis by (simp add: comp_def)
qed



lemma sort_children_group_children:
  "\<exists>ch. sort_children (position_by_id_of ps) (group_children ps) = Inr ch \<and>
     (\<forall>k. children_get ch k =
        map snd (sort_key fst (map (\<lambda>i. (position_key (the (position_by_id_of ps i)), i))
          (map p_id (filter (\<lambda>p. p_parent_position_id p = k) ps)))))"
proof -
  let ?pbi = "position_by_id_of ps"
  let ?srt = "\<lambda>ids. map snd (sort_key fst (map (\<lambda>i. (position_key (the (?pbi i)), i)) ids))"
  have dom: "\<forall>(k, ids) \<in> set (group_children ps). \<forall>i \<in> set ids. \<exists>p. ?pbi i = Some p"
    using group_children_values position_by_id_of_dom by fastforce
  have "sort_children ?pbi (group_children ps) =
      Inr (map (\<lambda>(k, ids). (k, ?srt ids)) (group_children ps))"
    by (rule sort_children_total [OF dom])
  moreover have "children_get (map (\<lambda>(k, ids). (k, ?srt ids)) (group_children ps)) k =
      ?srt (map p_id (filter (\<lambda>p. p_parent_position_id p = k) ps))" for k
    by (subst children_get_map) (simp_all add: children_get_group_children)
  ultimately show ?thesis by blast
qed

text \<open>
  Claim C7. The list that \<open>list_positions\<close> returns for a scenario holds exactly the
  positions of that scenario and is sorted ascending by (department, title). For that
  list, the sorting of the sibling lists in \<open>_refresh_chart\<close> raises no KeyError, and
  afterwards the list of every parent (null for the roots) holds exactly the ids of the
  positions with that parent, in an order whose positions are ascending by the same key.
  These lists are the ones \<open>_insert_chart_node\<close> walks.
\<close>

theorem list_positions_sorted:
  "list_positions db sid = Inr ps \<Longrightarrow>
     sorted (map (\<lambda>p. (p_department p, p_title p)) ps) \<and>
     set ps = {p \<in> set (t_rows (positions db)). p_scenario_id p = sid} \<and>
     (\<exists>ch. sort_children (position_by_id_of ps) (group_children ps) = Inr ch \<and>
        (\<forall>k. \<exists>qs. map (position_by_id_of ps) (children_get ch k) = map Some qs \<and>
                  sorted (map (\<lambda>p. (p_department p, p_title p)) qs) \<and>
                  set (children_get ch k) = p_id ` {p \<in> set ps. p_parent_position_id p = k}))"
proof -
  assume lp: "list_positions db sid = Inr ps"
  let ?key = "\<lambda>p. (p_department p, p_title p)"
  have key: "position_key = ?key" by (auto simp: position_key_def)
  from lp have ps: "ps = sort_key position_key
      (filter (\<lambda>p. p_scenario_id p = sid) (t_rows (positions db)))"
    by (simp add: list_positions_def split: if_splits)
  have 1: "sorted (map ?key ps)"
    unfolding ps key by (rule sorted_sort_key)
  have 2: "set ps = {p \<in> set (t_rows (positions db)). p_scenario_id p = sid}"
    unfolding ps by auto
  let ?pbi = "position_by_id_of ps"
  obtain ch where ch: "sort_children ?pbi (group_children ps) = Inr ch"
    and get: "\<And>k. children_get ch k =
        map snd (sort_key fst (map (\<lambda>i. (position_key (the (?pbi i)), i))
          (map p_id (filter (\<lambda>p. p_parent_position_id p = k) ps))))"
    using sort_children_group_children [of ps] by blast
  have 3: "\<exists>qs. map ?pbi (children_get ch k) = map Some qs \<and> sorted (map ?key qs) \<and>
      set (children_get ch k) = p_id ` {p \<in> set ps. p_parent_position_id p = k}" for k
  proof -
    let ?ids = "map p_id (filter (\<lambda>p. p_parent_position_id p = k) ps)"
    let ?qs = "map (\<lambda>i. the (?pbi i)) (children_get ch k)"
    have s: "set (children_get ch k) = p_id ` {p \<in> set ps. p_parent_position_id p = k}"
      unfolding get by (auto simp: image_iff)
    then have "\<forall>i \<in> set (children_get ch k). \<exists>p. ?pbi i = Some p"
      using position_by_id_of_dom by auto
    then have a: "map ?pbi (children_get ch k) = map Some ?qs"
      by auto
    have "map position_key ?qs =
        map fst (sort_key fst (map (\<lambda>i. (position_key (the (?pbi i)), i)) ?ids))"
      unfolding get using sorted_keyed [of ?pbi ?ids] by (simp add: comp_def)
    then have b: "sorted (map ?key ?qs)"
      unfolding key [symmetric] by (simp only: sorted_sort_key)
    from a b s show ?thesis by blast
  qed
  from 1 2 ch 3 show ?thesis by blast
qed

lemma list_positions_example:
  "list_positions example_db 1 = Inr
     [\<lparr>p_id = 1, p_scenario_id = 1, p_title = ''CEO'', p_department = ''Board'',
        p_parent_position_id = None\<rparr>,
      \<lparr>p_id = 4, p_scenario_id = 1, p_title = ''Architect'', p_department = ''Engineering'',
        p_parent_position_id = Some 2\<rparr>,
      \<lparr>p_id = 2, p_scenario_id = 1, p_title = ''CTO'', p_department = ''Engineering'',
        p_parent_position_id = Some 1\<rparr>,
      \<lparr>p_id = 3, p_scenario_id = 1, p_title = ''Developer'', p_department = ''Engineering'',
        p_parent_position_id = Some 2\<rparr>]"
  by code_simp

theorem list_positions_sorted_witness:
  "map p_title (projr (list_positions example_db 1)) = [''CEO'', ''Architect'', ''CTO'', ''Developer''] \<and>
   sorted (map (\<lambda>p. (p_department p, p_title p)) (projr (list_positions example_db 1))) \<and>
   (\<exists>ch. sort_children (position_by_id_of (projr (list_positions example_db 1)))
            (group_children (projr (list_positions example_db 1))) = Inr ch \<and>
         set (children_get ch (Some 2)) = {3, 4})"
proof -
  define ps where "ps = projr (list_positions example_db 1)"
  have e: "list_positions example_db 1 = Inr ps"
    by (simp add: ps_def list_positions_example)
  have "set (map p_id (filter (\<lambda>p. p_parent_position_id p = Some 2) ps)) = {3, 4}"
    unfolding ps_def list_positions_example by auto
  then have s: "p_id ` {p \<in> set ps. p_parent_position_id p = Some 2} = {3, 4}"
    by simp
  note lps = list_positions_sorted [OF e]
  from lps have 1: "sorted (map (\<lambda>p. (p_department p, p_title p)) ps)"
    by (rule conjunct1)
  from lps obtain ch where ch: "sort_children (position_by_id_of ps) (group_children ps) = Inr ch"
    and all: "\<forall>k. \<exists>qs. map (position_by_id_of ps) (children_get ch k) = map Some qs \<and>
                  sorted (map (\<lambda>p. (p_department p, p_title p)) qs) \<and>
                  set (children_get ch k) = p_id ` {p \<in> set ps. p_parent_position_id p = k}"
    by (elim conjE exE)
  from all have "set (children_get ch (Some 2)) =
      p_id ` {p \<in> set ps. p_parent_position_id p = Some 2}"
    by (elim allE [of _ "Some 2"] exE conjE)
  with s ch have 2: "\<exists>ch. sort_children (position_by_id_of ps) (group_children ps) = Inr ch \<and>
         set (children_get ch (Some 2)) = {3, 4}"
    by (intro exI [of _ ch]) simp
  have 3: "map p_title ps = [''CEO'', ''Architect'', ''CTO'', ''Developer'']"
    unfolding ps_def list_positions_example by simp
  from 1 2 3 show ?thesis
    unfolding ps_def by (intro conjI)
qed

lemma example_app_eq:
  "example_app =
     \<lparr>scenario_id = Some 1,
      positions_cache = title_cache
        [\<lparr>p_id = 1, p_scenario_id = 1, p_title = ''CEO'', p_department = ''Board'',
           p_parent_position_id = None\<rparr>,
         \<lparr>p_id = 4, p_scenario_id = 1, p_title = ''Architect'', p_department = ''Engineering'',
           p_parent_position_id = Some 2\<rparr>,
         \<lparr>p_id = 2, p_scenario_id = 1, p_title = ''CTO'', p_department = ''Engineering'',
           p_parent_position_id = Some 1\<rparr>,
         \<lparr>p_id = 3, p_scenario_id = 1, p_title = ''Developer'', p_department = ''Engineering'',
           p_parent_position_id = Some 2\<rparr>],
      position_title = '' Tester'', position_department = ''Quality '',
      position_parent = '' CEO'', chart_root = full_org_chart, chart_tree = []\<rparr>"
  by (simp add: example_app_def refresh_positions_def list_positions_example)

lemma example_app_fields:
  "scenario_id example_app = Some 1"
  "position_title example_app = '' Tester''"
  "position_department example_app = ''Quality ''"
  "position_parent example_app = '' CEO''"
  "chart_root example_app = full_org_chart"
  "chart_tree example_app = []"
  by (simp_all add: example_app_eq)


lemma example_cache:
  "positions_cache example_app ''CEO'' = Some 1"
  "positions_cache example_app ''CTO'' = Some 2"
  "positions_cache example_app '' CEO'' = None"
  "positions_cache example_app ''Nobody'' = None"
  by (simp_all add: example_app_eq title_cache_def)

subsection \<open>The parent field of the position form\<close>

lemma add_position_result:
  "add_position db sid ti d par =
     (if int64 sid \<and> (case par of None \<Rightarrow> True | Some i \<Rightarrow> int64 i)
      then (None, db\<lparr>positions := \<lparr>t_rows = t_rows (positions db) @
              [\<lparr>p_id = new_rowid (t_seq (positions db)) (map p_id (t_rows (positions db))),
                p_scenario_id = sid, p_title = ti, p_department = d,
                p_parent_position_id = par\<rparr>],
              t_seq = new_rowid (t_seq (positions db)) (map p_id (t_rows (positions db)))\<rparr>\<rparr>)
      else (Some OverflowError, db))"
  by (simp add: add_position_def with_connect_def connect_def execute_def begin_if_needed_def
      commit_def rollback_def Let_def)

lemma refresh_positions_returns:
  "scenario_id a = Some sid \<Longrightarrow> int64 sid \<Longrightarrow> fst (refresh_positions a db) = None"
  by (simp add: refresh_positions_def list_positions_def)

text \<open>
  Claim C10, as amended. With a scenario selected whose id fits 64 bits, and a title and
  a department that are not blank after \<open>strip\<close>: when the parent field, after
  \<open>strip\<close>, is empty or is not a title of the cache, \<open>_add_position\<close> returns
  normally, having inserted the position with \<open>parent_position_id\<close> null; nothing is
  raised and no warning is shown.
\<close>

theorem add_position_app_unmatched_parent:
  assumes "scenario_id a = Some sid" and "int64 sid"
    and "strip (position_title a) \<noteq> []" and "strip (position_department a) \<noteq> []"
    and "strip (position_parent a) = [] \<or> positions_cache a (strip (position_parent a)) = None"
  shows "fst (add_position_app a db) = Done \<and>
    snd (snd (add_position_app a db)) =
      db\<lparr>positions := \<lparr>t_rows = t_rows (positions db) @
          [\<lparr>p_id = new_rowid (t_seq (positions db)) (map p_id (t_rows (positions db))),
            p_scenario_id = sid, p_title = strip (position_title a),
            p_department = strip (position_department a), p_parent_position_id = None\<rparr>],
          t_seq = new_rowid (t_seq (positions db)) (map p_id (t_rows (positions db)))\<rparr>\<rparr>"
proof -
  from assms(5) have par: "combo_value_to_id (position_parent a) (positions_cache a) = None"
    by (auto simp: combo_value_to_id_def Let_def)
  let ?a1 = "a\<lparr>position_title := [], position_department := [], position_parent := []\<rparr>"
  let ?db' = "db\<lparr>positions := \<lparr>t_rows = t_rows (positions db) @
          [\<lparr>p_id = new_rowid (t_seq (positions db)) (map p_id (t_rows (positions db))),
            p_scenario_id = sid, p_title = strip (position_title a),
            p_department = strip (position_department a), p_parent_position_id = None\<rparr>],
          t_seq = new_rowid (t_seq (positions db)) (map p_id (t_rows (positions db)))\<rparr>\<rparr>"
  have ap: "add_position db sid (strip (position_title a)) (strip (position_department a)) None
      = (None, ?db')"
    using assms(2) by (simp add: add_position_result)
  have "fst (refresh_positions ?a1 ?db') = None"
    using assms(1,2) by (simp add: refresh_positions_returns)
  then obtain a2 where rp: "refresh_positions ?a1 ?db' = (None, a2)"
    by (metis prod.collapse)
  show ?thesis
    using assms(1,3,4) by (simp add: add_position_app_def Let_def par ap rp)
qed

text \<open>
  The white space of \<open>strip\<close>, as bytes: the UTF-8 encodings of the 29 code points.
\<close>

lemma white_space_bytes:
  "white_space =
     [[CHR 0x09], [CHR 0x0A], [CHR 0x0B], [CHR 0x0C], [CHR 0x0D], [CHR 0x1C], [CHR 0x1D],
      [CHR 0x1E], [CHR 0x1F], [CHR 0x20], [CHR 0xC2, CHR 0x85], [CHR 0xC2, CHR 0xA0],
      [CHR 0xE1, CHR 0x9A, CHR 0x80], [CHR 0xE2, CHR 0x80, CHR 0x80],
      [CHR 0xE2, CHR 0x80, CHR 0x81], [CHR 0xE2, CHR 0x80, CHR 0x82],
      [CHR 0xE2, CHR 0x80, CHR 0x83], [CHR 0xE2, CHR 0x80, CHR 0x84],
      [CHR 0xE2, CHR 0x80, CHR 0x85], [CHR 0xE2, CHR 0x80, CHR 0x86],
      [CHR 0xE2, CHR 0x80, CHR 0x87], [CHR 0xE2, CHR 0x80, CHR 0x88],
      [CHR 0xE2, CHR 0x80, CHR 0x89], [CHR 0xE2, CHR 0x80, CHR 0x8A],
      [CHR 0xE2, CHR 0x80, CHR 0xA8], [CHR 0xE2, CHR 0x80, CHR 0xA9],
      [CHR 0xE2, CHR 0x80, CHR 0xAF], [CHR 0xE2, CHR 0x81, CHR 0x9F],
      [CHR 0xE3, CHR 0x80, CHR 0x80]]"
  by code_simp

lemma strip_examples:
  "strip '' CEO'' = ''CEO''" "strip '' Tester'' = ''Tester''" "strip ''Quality '' = ''Quality''"
  "strip ''Nobody'' = ''Nobody''"
  "strip (utf8 0xA0 @ ''CEO'') = ''CEO''" "strip (utf8 0xA0) = []"
  "strip (utf8 0x3000 @ ''CEO'' @ utf8 0x2028) = ''CEO''"
  by code_simp+

text \<open>
  White space beyond ASCII is stripped as well: a parent field of a no-break space
  followed by \<open>CEO\<close> selects the position titled \<open>CEO\<close>, and a title or department
  that holds nothing but white space gets the warning and no insert.
\<close>

lemma combo_value_to_id_no_break_space:
  "combo_value_to_id (utf8 0xA0 @ ''CEO'') (positions_cache example_app) = Some 1"
  by (simp add: combo_value_to_id_def strip_examples example_cache)

lemma add_position_app_blank:
  "scenario_id a = Some sid \<Longrightarrow>
   strip (position_title a) = [] \<or> strip (position_department a) = [] \<Longrightarrow>
   add_position_app a db =
     (Warned ''Missing data'' ''Title and department are required.'', a, db)"
  by (auto simp: add_position_app_def Let_def)

lemma add_position_app_no_break_space_title:
  "add_position_app (example_app\<lparr>position_title := utf8 0xA0\<rparr>) example_db =
     (Warned ''Missing data'' ''Title and department are required.'',
      example_app\<lparr>position_title := utf8 0xA0\<rparr>, example_db)"
  by (rule add_position_app_blank [of _ 1]) (simp_all add: example_app_fields strip_examples)

theorem add_position_app_unmatched_parent_witness:
  "scenario_id (example_app\<lparr>position_parent := ''Nobody''\<rparr>) = Some 1 \<and> int64 1 \<and>
   strip (position_title (example_app\<lparr>position_parent := ''Nobody''\<rparr>)) \<noteq> [] \<and>
   strip (position_department (example_app\<lparr>position_parent := ''Nobody''\<rparr>)) \<noteq> [] \<and>
   positions_cache (example_app\<lparr>position_parent := ''Nobody''\<rparr>)
     (strip (position_parent (example_app\<lparr>position_parent := ''Nobody''\<rparr>))) = None \<and>
   fst (add_position_app (example_app\<lparr>position_parent := ''Nobody''\<rparr>) example_db) = Done \<and>
   map p_parent_position_id (t_rows (positions (snd (snd
     (add_position_app (example_app\<lparr>position_parent := ''Nobody''\<rparr>) example_db))))) =
     [None, Some 1, Some 2, Some 2, None]"
proof -
  let ?a = "example_app\<lparr>position_parent := ''Nobody''\<rparr>"
  have h: "scenario_id ?a = Some 1" "int64 1" "strip (position_title ?a) \<noteq> []"
    "strip (position_department ?a) \<noteq> []"
    "strip (position_parent ?a) = [] \<or> positions_cache ?a (strip (position_parent ?a)) = None"
    by (simp_all add: example_app_fields strip_examples example_cache int64_def)
  from add_position_app_unmatched_parent [OF h, of example_db] h show ?thesis
    by (simp add: example_app_fields strip_examples example_cache example_db_def)
qed

text \<open>
  Claim C10 as stated speaks of the field's own text. In \<open>example_app\<close> the parent
  field holds \<open>'' CEO''\<close> with a leading blank: it is not empty and is no title of the
  cache, yet after \<open>strip\<close> it is the title of position 1, and the new position is
  inserted with parent 1, not null.
\<close>

theorem add_position_app_padded_parent:
  "position_parent example_app \<noteq> [] \<and>
   positions_cache example_app (position_parent example_app) = None \<and>
   fst (add_position_app example_app example_db) = Done \<and>
   map p_parent_position_id
     (t_rows (positions (snd (snd (add_position_app example_app example_db))))) =
     [None, Some 1, Some 2, Some 2, Some 1]"
proof -
  have c: "combo_value_to_id (position_parent example_app) (positions_cache example_app) = Some 1"
    by (simp add: combo_value_to_id_def example_app_fields strip_examples example_cache)
  let ?a1 = "example_app\<lparr>position_title := [], position_department := [], position_parent := []\<rparr>"
  have "fst (add_position example_db 1 ''Tester'' ''Quality'' (Some 1)) = None"
    by (simp add: add_position_result int64_def)
  then obtain db1 where ap: "add_position example_db 1 ''Tester'' ''Quality'' (Some 1) = (None, db1)"
    by (metis prod.collapse)
  have "fst (refresh_positions ?a1 db1) = None"
    by (rule refresh_positions_returns [of _ 1]) (simp_all add: example_app_fields int64_def)
  then obtain a2 where rp: "refresh_positions ?a1 db1 = (None, a2)"
    by (metis prod.collapse)
  have s: "scenario_id example_app = Some 1" "strip (position_title example_app) = ''Tester''"
    "strip (position_department example_app) = ''Quality''"
    by (simp_all add: example_app_fields strip_examples)
  have res: "add_position_app example_app example_db = (Done, a2, db1)"
    by (simp add: add_position_app_def Let_def s c rp ap)
  have "map p_parent_position_id (t_rows (positions db1)) = [None, Some 1, Some 2, Some 2, Some 1]"
    using ap by (auto simp: add_position_result int64_def example_db_def)
  then have "fst (add_position_app example_app example_db) = Done \<and>
   map p_parent_position_id
     (t_rows (positions (snd (snd (add_position_app example_app example_db))))) =
     [None, Some 1, Some 2, Some 2, Some 1]"
    unfolding res by simp
  then show ?thesis
    by (simp add: example_app_fields example_cache)
qed

subsection \<open>The org chart\<close>

text \<open>
  The ids of a table are distinct (PRIMARY KEY): a new rowid is larger than every stored
  one, and \<open>list_positions\<close> returns rows of the table.
\<close>

lemma fold_max_ge: "sq \<le> fold max ids (sq :: int) \<and> (\<forall>i \<in> set ids. i \<le> fold max ids sq)"
proof (induction ids arbitrary: sq)
  case Nil
  then show ?case by simp
next
  case (Cons x xs)
  from Cons.IH [of "max x sq"] show ?case by auto
qed

lemma new_rowid_fresh: "i \<in> set ids \<Longrightarrow> i < new_rowid sq ids"
  using fold_max_ge [of sq ids] by (auto simp: new_rowid_def)

lemma add_position_ids_distinct:
  assumes "distinct (map p_id (t_rows (positions db)))"
  shows "distinct (map p_id (t_rows (positions (snd (add_position db sid ti d par)))))"
proof -
  have "new_rowid (t_seq (positions db)) (map p_id (t_rows (positions db)))
      \<notin> set (map p_id (t_rows (positions db)))"
    using new_rowid_fresh by blast
  with assms show ?thesis by (simp add: add_position_result)
qed

lemma list_positions_ids_distinct:
  assumes "distinct (map p_id (t_rows (positions db)))" and "list_positions db sid = Inr ps"
  shows "distinct (map p_id ps)"
proof -
  from assms(2) have ps: "ps = sort_key position_key
      (filter (\<lambda>p. p_scenario_id p = sid) (t_rows (positions db)))"
    by (simp add: list_positions_def split: if_splits)
  from assms(1) have "distinct (map p_id (filter (\<lambda>p. p_scenario_id p = sid) (t_rows (positions db))))"
    by (rule distinct_map_filter)
  then show ?thesis
    unfolding ps by (simp add: distinct_map)
qed












end
